theory Spec2Isabelle
  imports Complex_Main "HOL-Library.Char_ord" "HOL-Library.List_Lexorder"
begin

section \<open>JavaScript values\<close>

text \<open>
  The values that the registry client hands to the callbacks of \<^verbatim>\<open>npm-utils.js\<close> are
  JSON-like: primitives, arrays and plain objects. An object is the list of its own
  enumerable properties; where a key occurs twice the first binding is the property.
  Strings are lists of 8-bit characters, ordered lexicographically by character code,
  which is the order of JavaScript's default \<^verbatim>\<open>Array.prototype.sort\<close> on such strings.
\<close>

datatype jsval =
    Undefined
  | Null
  | Bool bool
  | Num rat
  | Str string
  | Arr "jsval list"
  | Obj "(string \<times> jsval) list"

text \<open>ToBoolean, the test of \<^verbatim>\<open>if (v)\<close>.\<close>

fun truthy :: "jsval \<Rightarrow> bool" where
  "truthy Undefined = False"
| "truthy Null = False"
| "truthy (Bool b) = b"
| "truthy (Num n) = (n \<noteq> 0)"
| "truthy (Str s) = (s \<noteq> [])"
| "truthy (Arr xs) = True"
| "truthy (Obj kvs) = True"

text \<open>\<^verbatim>\<open>Array.isArray\<close>.\<close>

fun isArray :: "jsval \<Rightarrow> bool" where
  "isArray (Arr xs) = True"
| "isArray v = False"

text \<open>
  What a promise is rejected with: the error value that npm passed to a callback, or the
  TypeError that the engine throws on a property access of \<^verbatim>\<open>undefined\<close> or \<^verbatim>\<open>null\<close>.
\<close>

datatype reason = Err jsval | TypeError

text \<open>The settled state of a promise.\<close>

datatype promise = Resolved jsval | Rejected reason

text \<open>The decimal numeral of an array index, as it appears among the keys of an array.\<close>

fun dec :: "nat \<Rightarrow> string" where
  "dec n = (if n < 10 then [char_of (48 + n)]
            else dec (n div 10) @ [char_of (48 + n mod 10)])"

definition index_of_key :: "string \<Rightarrow> nat \<Rightarrow> nat option" where
  "index_of_key k n = find (\<lambda>i. dec i = k) [0..<n]"

text \<open>
  \<^verbatim>\<open>Object.keys(o)\<close>: the own enumerable string keys. It throws on \<^verbatim>\<open>undefined\<close> and
  \<^verbatim>\<open>null\<close>; numbers and booleans have none; a string and an array have their indices.
  The engine lists integer-like keys of an object first; the list here is in property
  order, and its only consumer sorts it.
\<close>

fun keys :: "jsval \<Rightarrow> reason + string list" where
  "keys Undefined = Inl TypeError"
| "keys Null = Inl TypeError"
| "keys (Bool b) = Inr []"
| "keys (Num n) = Inr []"
| "keys (Str s) = Inr (map dec [0..<length s])"
| "keys (Arr xs) = Inr (map dec [0..<length xs])"
| "keys (Obj kvs) = Inr (remdups (map fst kvs))"

text \<open>
  The property read \<^verbatim>\<open>o[k]\<close> for a string key. It throws on \<^verbatim>\<open>undefined\<close> and \<^verbatim>\<open>null\<close>
  and yields \<^verbatim>\<open>undefined\<close> for a property that is absent. Members inherited from the
  built-in prototypes (methods such as \<^verbatim>\<open>toString\<close>) are not represented: the module
  reads only \<^verbatim>\<open>versions\<close>, \<^verbatim>\<open>dist.tarball\<close>, own keys of the reply and the key
  \<^verbatim>\<open>undefined\<close>, none of which a built-in prototype defines.
\<close>

fun get :: "jsval \<Rightarrow> string \<Rightarrow> reason + jsval" where
  "get Undefined k = Inl TypeError"
| "get Null k = Inl TypeError"
| "get (Bool b) k = Inr Undefined"
| "get (Num n) k = Inr Undefined"
| "get (Str s) k =
     (if k = ''length'' then Inr (Num (of_nat (length s)))
      else case index_of_key k (length s) of
             Some i \<Rightarrow> Inr (Str [s ! i])
           | None \<Rightarrow> Inr Undefined)"
| "get (Arr xs) k =
     (if k = ''length'' then Inr (Num (of_nat (length xs)))
      else case index_of_key k (length xs) of
             Some i \<Rightarrow> Inr (xs ! i)
           | None \<Rightarrow> Inr Undefined)"
| "get (Obj kvs) k =
     (case map_of kvs k of Some v \<Rightarrow> Inr v | None \<Rightarrow> Inr Undefined)"

text \<open>
  ToPropertyKey of what \<^verbatim>\<open>getLastKey\<close> returns: a string is its own key, and
  \<^verbatim>\<open>undefined\<close> (here \<open>None\<close>) is the key \<^verbatim>\<open>"undefined"\<close>.
\<close>

fun property_key :: "string option \<Rightarrow> string" where
  "property_key None = ''undefined''"
| "property_key (Some k) = k"

section \<open>The registry client\<close>

text \<open>
  The module calls two operations of npm, \<^verbatim>\<open>npm.load(cb)\<close> and
  \<^verbatim>\<open>npm.commands.view(args, true, cb)\<close>. Each calls its callback once: \<open>load\<close> with
  an error value and, on success, npm itself, of which the module uses \<^verbatim>\<open>config.get\<close>;
  \<open>view\<close> with an error value and the reply. The replies are parameters of the model, and
  may differ from one call to the next; the two counters record how often each operation
  has been called.
\<close>

record npm =
  load_reply :: "nat \<Rightarrow> jsval \<times> (string \<Rightarrow> jsval)"
  view_reply :: "nat \<Rightarrow> string list \<Rightarrow> jsval \<times> jsval"
  loads :: nat
  views :: nat

definition npm_load :: "npm \<Rightarrow> (jsval \<times> (string \<Rightarrow> jsval)) \<times> npm" where
  "npm_load w = (load_reply w (loads w), w\<lparr>loads := Suc (loads w)\<rparr>)"

definition npm_view :: "string list \<Rightarrow> npm \<Rightarrow> (jsval \<times> jsval) \<times> npm" where
  "npm_view args w = (view_reply w (views w) args, w\<lparr>views := Suc (views w)\<rparr>)"

section \<open>npm-utils.js\<close>

text \<open>\<^verbatim>\<open>wrapCallback(deferred)(err, data)\<close>: how the callback settles the deferred.\<close>

definition wrapCallback :: "jsval \<Rightarrow> jsval \<Rightarrow> promise" where
  "wrapCallback err data = (if truthy err then Rejected (Err err) else Resolved data)"

definition execViewCommand :: "string list \<Rightarrow> npm \<Rightarrow> promise \<times> npm" where
  "execViewCommand args w =
     (case npm_load w of
        ((err, cfg), w1) \<Rightarrow>
          if truthy err then (Rejected (Err err), w1)
          else (case npm_view args w1 of
                  ((err2, data), w2) \<Rightarrow> (wrapCallback err2 data, w2)))"

definition getLastKey :: "jsval \<Rightarrow> reason + string option" where
  "getLastKey o' =
     (case keys o' of
        Inl e \<Rightarrow> Inl e
      | Inr ks \<Rightarrow>
          (let sorted_keys = sort ks
           in Inr (if length sorted_keys = 0 then None
                   else Some (sorted_keys ! (length sorted_keys - 1)))))"

text \<open>
  \<^verbatim>\<open>promise.then(f)\<close> for a handler that returns a plain value or throws: a rejection
  passes through, a throw of the handler rejects.
\<close>

definition then_promise :: "promise \<Rightarrow> (jsval \<Rightarrow> reason + jsval) \<Rightarrow> promise" where
  "then_promise p f =
     (case p of
        Rejected r \<Rightarrow> Rejected r
      | Resolved v \<Rightarrow> (case f v of Inl r \<Rightarrow> Rejected r | Inr x \<Rightarrow> Resolved x))"

definition proxy :: "npm \<Rightarrow> promise \<times> npm" where
  "proxy w =
     (case npm_load w of
        ((err, cfg), w1) \<Rightarrow>
          if truthy err then (Rejected (Err err), w1)
          else (Resolved (Obj [(''proxy'', cfg ''proxy''),
                               (''https-proxy'', cfg ''https-proxy'')]), w1))"

definition releases_handler :: "jsval \<Rightarrow> reason + jsval" where
  "releases_handler data =
     (if isArray data then Inr data
      else case getLastKey data of
             Inl e \<Rightarrow> Inl e
           | Inr mostRecentVersion \<Rightarrow>
               (case get data (property_key mostRecentVersion) of
                  Inl e \<Rightarrow> Inl e
                | Inr entry \<Rightarrow> get entry ''versions''))"

definition releases :: "string \<Rightarrow> npm \<Rightarrow> promise \<times> npm" where
  "releases pkg w =
     (case execViewCommand [pkg, ''versions''] w of
        (p, w') \<Rightarrow> (then_promise p releases_handler, w'))"

definition tarball_handler :: "jsval \<Rightarrow> reason + jsval" where
  "tarball_handler data =
     (case get data ''dist.tarball'' of
        Inl e \<Rightarrow> Inl e
      | Inr t \<Rightarrow>
          if truthy t then get data ''dist.tarball''
          else case getLastKey data of
                 Inl e \<Rightarrow> Inl e
               | Inr mostRecentVersion \<Rightarrow>
                   (case get data (property_key mostRecentVersion) of
                      Inl e \<Rightarrow> Inl e
                    | Inr entry \<Rightarrow> get entry ''dist.tarball''))"

definition tarball :: "string \<Rightarrow> string \<Rightarrow> npm \<Rightarrow> promise \<times> npm" where
  "tarball pkg version w =
     (case execViewCommand [pkg @ ''@'' @ version, ''dist.tarball''] w of
        (p, w') \<Rightarrow> (then_promise p tarball_handler, w'))"

text \<open>
  A registry client whose configuration loads, with no setting configured, and whose
  view command replies with the given value.
\<close>

definition npm_replying :: "jsval \<Rightarrow> npm" where
  "npm_replying data =
     \<lparr>load_reply = (\<lambda>n. (Null, \<lambda>k. Undefined)),
      view_reply = (\<lambda>n args. (Null, data)),
      loads = 0, views = 0\<rparr>"

section \<open>The download module\<close>

text \<open>
  Modelled from the spec: the file \<^verbatim>\<open>src/download.js\<close>, which defines \<open>fetch\<close>, is not
  among the sources; only its test is. The HTTP client answers a GET request with a
  network failure or with a status code and a body. The answers are parameters of the
  model and may differ from one request to the next.
\<close>

datatype http_reply = NetworkFailure | Response nat string

text \<open>
  Modelled from the spec: the one error of \<open>fetch\<close>, which the spec names DownloadError.
\<close>

datatype download_error = DownloadError

text \<open>
  Modelled from the spec: the collaborators of \<open>fetch\<close>, an HTTP client and a file
  system. The counter records how many requests have been sent; \<open>writable_dir\<close> holds of
  the paths that name a directory which exists and can be written to; \<open>files\<close> maps a
  path to the content of the file there; \<open>cwd\<close> holds the segments of the working
  directory, against which the file system resolves a relative path.
\<close>

record host =
  http_reply_of :: "nat \<Rightarrow> string \<Rightarrow> http_reply"
  requests :: nat
  writable_dir :: "string \<Rightarrow> bool"
  files :: "string \<Rightarrow> string option"
  cwd :: "string list"

text \<open>
  Modelled from the spec: the final segment of a path is what follows its last \<^verbatim>\<open>/\<close>.
\<close>

definition basename :: "string \<Rightarrow> string" where
  "basename p = rev (takeWhile (\<lambda>c. c \<noteq> CHR ''/'') (rev p))"

text \<open>
  Modelled from the spec: the path of an HTTP(S) URL. After the scheme comes the
  authority, which ends at the first \<^verbatim>\<open>/\<close>, \<^verbatim>\<open>?\<close> or \<^verbatim>\<open>#\<close>; the path runs from there to
  the query or the fragment, and is empty when the URL has none.
\<close>

definition url_path :: "string \<Rightarrow> string" where
  "url_path url =
     (let rest = (if take 7 url = ''http://'' then drop 7 url
                  else if take 8 url = ''https://'' then drop 8 url
                  else url);
          from_path = dropWhile (\<lambda>c. c \<noteq> CHR ''/'' \<and> c \<noteq> CHR ''?'' \<and> c \<noteq> CHR ''#'') rest
      in takeWhile (\<lambda>c. c \<noteq> CHR ''?'' \<and> c \<noteq> CHR ''#'') from_path)"

text \<open>
  Modelled from the spec: the final path segment of a URL, from which \<open>fetch\<close> derives
  the name of the output file.
\<close>

definition final_path_segment :: "string \<Rightarrow> string" where
  "final_path_segment url = basename (url_path url)"

text \<open>
  Modelled from the spec: a segment names a file in a directory unless it is empty or
  one of \<^verbatim>\<open>.\<close> and \<^verbatim>\<open>..\<close>, which name the directory itself and its parent; opening
  such a path for writing fails.
\<close>

definition is_file_name :: "string \<Rightarrow> bool" where
  "is_file_name n = (n \<noteq> [] \<and> n \<noteq> ''.'' \<and> n \<noteq> ''..'')"

text \<open>
  Modelled from the spec: a success status, read here as the codes from 200 to 299.
\<close>

definition success_status :: "nat \<Rightarrow> bool" where
  "success_status status = (200 \<le> status \<and> status < 300)"

text \<open>
  Modelled from the spec: a path is absolute when it starts at the root.
\<close>

definition is_absolute :: "string \<Rightarrow> bool" where
  "is_absolute p = (take 1 p = ''/'')"

text \<open>
  Modelled from the spec: the absolute path of a path, which is the path itself when it
  is absolute and is taken from the working directory otherwise.
\<close>

definition absolute_path :: "host \<Rightarrow> string \<Rightarrow> string" where
  "absolute_path h p =
     (if is_absolute p then p
      else concat (map (\<lambda>s. CHR ''/'' # s) (cwd h)) @ ''/'' @ p)"

text \<open>
  Modelled from the spec: \<open>fetch(url, destinationDir)\<close> sends one request, names the
  output file after the final path segment of the URL, writes the body to the file of
  that name in \<open>destinationDir\<close> and resolves with the absolute path of that file; it
  fails with DownloadError on a network failure, on a non-success status and when the
  file cannot be written.
\<close>

definition fetch :: "string \<Rightarrow> string \<Rightarrow> host \<Rightarrow> (download_error + string) \<times> host" where
  "fetch url destinationDir h =
     (let name = final_path_segment url;
          path = absolute_path h destinationDir @ ''/'' @ name;
          h1 = h\<lparr>requests := Suc (requests h)\<rparr>
      in case http_reply_of h (requests h) url of
           NetworkFailure \<Rightarrow> (Inl DownloadError, h1)
         | Response status body \<Rightarrow>
             if \<not> success_status status then (Inl DownloadError, h1)
             else if \<not> writable_dir h destinationDir then (Inl DownloadError, h1)
             else if \<not> is_file_name name then (Inl DownloadError, h1)
             else (Inr path, h1\<lparr>files := (files h)(path \<mapsto> body)\<rparr>))"


text \<open>
  A host on which every request is answered by the given reply and only the given
  directory can be written to.
\<close>

definition host_replying :: "http_reply \<Rightarrow> string \<Rightarrow> host" where
  "host_replying r dir =
     \<lparr>http_reply_of = (\<lambda>n url. r), requests = 0,
      writable_dir = (\<lambda>d. d = dir), files = (\<lambda>p. None),
      cwd = [''home'', ''user'']\<rparr>"

text \<open>
  A registry client whose configuration fails to load with the given error.
\<close>

definition npm_load_failing :: "jsval \<Rightarrow> npm" where
  "npm_load_failing e =
     \<lparr>load_reply = (\<lambda>n. (e, \<lambda>k. Undefined)),
      view_reply = (\<lambda>n args. (Null, Undefined)),
      loads = 0, views = 0\<rparr>"

text \<open>
  A registry client whose configuration loads and whose view command fails with the
  given error.
\<close>

definition npm_view_failing :: "jsval \<Rightarrow> npm" where
  "npm_view_failing e =
     \<lparr>load_reply = (\<lambda>n. (Null, \<lambda>k. Undefined)),
      view_reply = (\<lambda>n args. (e, Undefined)),
      loads = 0, views = 0\<rparr>"

text \<open>A registry client with the two proxy settings configured.\<close>

definition npm_with_proxy :: "string \<Rightarrow> string \<Rightarrow> npm" where
  "npm_with_proxy p hp =
     \<lparr>load_reply = (\<lambda>n. (Null, \<lambda>k. if k = ''proxy'' then Str p
                                     else if k = ''https-proxy'' then Str hp
                                     else Undefined)),
      view_reply = (\<lambda>n args. (Null, Undefined)),
      loads = 0, views = 0\<rparr>"

section \<open>Properties\<close>

lemma execViewCommand_resolved:
  assumes "\<not> truthy (fst (load_reply w (loads w)))"
    and "view_reply w (views w) args = (err, data)"
    and "\<not> truthy err"
  shows "execViewCommand args w =
           (Resolved data, w\<lparr>loads := Suc (loads w), views := Suc (views w)\<rparr>)"
  using assms
  by (cases "load_reply w (loads w)")
     (simp add: execViewCommand_def npm_load_def npm_view_def wrapCallback_def)

lemma sorted_last_Max:
  fixes xs :: "'a::linorder list"
  assumes "sorted xs" and "xs \<noteq> []"
  shows "last xs = Max (set xs)"
proof -
  have "y \<le> last xs" if "y \<in> set xs" for y
    using assms(1) that by (induction xs) auto
  then show ?thesis
    using assms(2) by (intro Max_eqI [symmetric]) auto
qed

lemma getLastKey_Obj:
  assumes "kvs \<noteq> []"
  shows "getLastKey (Obj kvs) = Inr (Some (Max (fst ` set kvs)))"
proof -
  let ?ks = "sort (remdups (map fst kvs))"
  have ne: "?ks \<noteq> []" using assms by (simp flip: set_empty)
  have "?ks ! (length ?ks - 1) = last ?ks"
    using ne by (simp add: last_conv_nth)
  also have "\<dots> = Max (set ?ks)"
    using ne by (intro sorted_last_Max) simp_all
  also have "\<dots> = Max (fst ` set kvs)" by simp
  finally show ?thesis using ne by (simp add: getLastKey_def)
qed

lemma getLastKey_Obj_empty: "getLastKey (Obj []) = Inr None"
  by (simp add: getLastKey_def)

lemma Max_key_bound:
  assumes "kvs \<noteq> []"
  shows "Max (fst ` set kvs) \<in> fst ` set kvs"
    and "\<forall>k' \<in> fst ` set kvs. k' \<le> Max (fst ` set kvs)"
  using assms by (simp_all add: Max_in)

lemma map_of_Max_key:
  assumes "kvs \<noteq> []"
  shows "\<exists>entry. map_of kvs (Max (fst ` set kvs)) = Some entry
           \<and> (Max (fst ` set kvs), entry) \<in> set kvs"
proof -
  have "Max (fst ` set kvs) \<in> fst ` set kvs"
    using assms by (rule Max_key_bound)
  then obtain entry where "map_of kvs (Max (fst ` set kvs)) = Some entry"
    by (metis domD dom_map_of_conv_image_fst)
  then show ?thesis by (auto dest: map_of_SomeD)
qed

lemma then_promise_Resolved:
  "then_promise (Resolved v) f = (case f v of Inl r \<Rightarrow> Rejected r | Inr x \<Rightarrow> Resolved x)"
  by (simp add: then_promise_def)

text \<open>
  Claim C1. When the view reply for the package's \<^verbatim>\<open>versions\<close> is not an array but a
  mapping keyed by version strings, each value of which has a \<^verbatim>\<open>versions\<close> field,
  \<open>releases\<close> resolves with the \<^verbatim>\<open>versions\<close> field of the entry whose key is the
  greatest of the mapping's keys in the lexicographic order of strings.
\<close>

theorem releases_unwraps_last_key:
  assumes "\<not> truthy (fst (load_reply w (loads w)))"
    and "view_reply w (views w) [p, ''versions''] = (err, Obj kvs)"
    and "\<not> truthy err"
    and "kvs \<noteq> []"
    and "\<forall>(k, v) \<in> set kvs. \<exists>fs vs. v = Obj fs \<and> map_of fs ''versions'' = Some vs"
  shows "\<exists>k fs vs. k \<in> fst ` set kvs \<and> (\<forall>k' \<in> fst ` set kvs. k' \<le> k)
           \<and> map_of kvs k = Some (Obj fs) \<and> map_of fs ''versions'' = Some vs
           \<and> fst (releases p w) = Resolved vs"
proof -
  let ?k = "Max (fst ` set kvs)"
  obtain entry where e: "map_of kvs ?k = Some entry" "(?k, entry) \<in> set kvs"
    using map_of_Max_key [OF assms(4)] by blast
  from assms(5) e(2) obtain fs vs where f: "entry = Obj fs" "map_of fs ''versions'' = Some vs"
    by blast
  have "releases_handler (Obj kvs) = Inr vs"
    using e(1) f by (simp add: releases_handler_def getLastKey_Obj [OF assms(4)])
  then have "fst (releases p w) = Resolved vs"
    using execViewCommand_resolved [OF assms(1-3)]
    by (simp add: releases_def then_promise_Resolved)
  then show ?thesis
    using Max_key_bound [OF assms(4)] e(1) f by blast
qed

theorem releases_unwraps_last_key_witness:
  "fst (releases ''bower'' (npm_replying (Obj
      [(''1.0.0'', Obj [(''versions'', Arr [Str ''1.0.0''])]),
       (''1.7.7'', Obj [(''versions'', Arr [Str ''1.0.0'', Str ''1.1.0'', Str ''1.7.7''])]),
       (''1.1.0'', Obj [(''versions'', Arr [Str ''1.0.0'', Str ''1.1.0''])])])))
     = Resolved (Arr [Str ''1.0.0'', Str ''1.1.0'', Str ''1.7.7''])"
proof -
  let ?kvs = "[(''1.0.0'', Obj [(''versions'', Arr [Str ''1.0.0''])]),
       (''1.7.7'', Obj [(''versions'', Arr [Str ''1.0.0'', Str ''1.1.0'', Str ''1.7.7''])]),
       (''1.1.0'', Obj [(''versions'', Arr [Str ''1.0.0'', Str ''1.1.0''])])]"
  let ?w = "npm_replying (Obj ?kvs)"
  have a: "\<not> truthy (fst (load_reply ?w (loads ?w)))"
    by (simp add: npm_replying_def)
  have b: "view_reply ?w (views ?w) [''bower'', ''versions''] = (Null, Obj ?kvs)"
    by (simp add: npm_replying_def)
  have c: "\<not> truthy Null" by simp
  have d: "?kvs \<noteq> []" by simp
  have e: "\<forall>(k, v) \<in> set ?kvs. \<exists>fs vs. v = Obj fs \<and> map_of fs ''versions'' = Some vs"
    by simp
  from releases_unwraps_last_key [OF a b c d e]
  obtain k fs vs where k: "k \<in> fst ` set ?kvs" "\<forall>k' \<in> fst ` set ?kvs. k' \<le> k"
    and m: "map_of ?kvs k = Some (Obj fs)" "map_of fs ''versions'' = Some vs"
    and r: "fst (releases ''bower'' ?w) = Resolved vs"
    by blast
  from k have "k = ''1.7.7''" by auto
  with m have "vs = Arr [Str ''1.0.0'', Str ''1.1.0'', Str ''1.7.7'']" by auto
  with r show ?thesis by simp
qed

text \<open>
  Claim C2. When the view reply for \<^verbatim>\<open>pkg@version\<close> and \<^verbatim>\<open>dist.tarball\<close> has no
  \<^verbatim>\<open>dist.tarball\<close> entry of its own but is a mapping keyed by version strings, each
  value of which has a \<^verbatim>\<open>dist.tarball\<close> field, \<open>tarball\<close> resolves with the
  \<^verbatim>\<open>dist.tarball\<close> value of the entry whose key is the greatest of the mapping's keys
  in the lexicographic order of strings.
\<close>

theorem tarball_unwraps_last_key:
  assumes "\<not> truthy (fst (load_reply w (loads w)))"
    and "view_reply w (views w) [pkg @ ''@'' @ version, ''dist.tarball''] = (err, Obj kvs)"
    and "\<not> truthy err"
    and "kvs \<noteq> []"
    and "map_of kvs ''dist.tarball'' = None"
    and "\<forall>(k, v) \<in> set kvs. \<exists>fs u. v = Obj fs \<and> map_of fs ''dist.tarball'' = Some u"
  shows "\<exists>k fs u. k \<in> fst ` set kvs \<and> (\<forall>k' \<in> fst ` set kvs. k' \<le> k)
           \<and> map_of kvs k = Some (Obj fs) \<and> map_of fs ''dist.tarball'' = Some u
           \<and> fst (tarball pkg version w) = Resolved u"
proof -
  let ?k = "Max (fst ` set kvs)"
  obtain entry where e: "map_of kvs ?k = Some entry" "(?k, entry) \<in> set kvs"
    using map_of_Max_key [OF assms(4)] by blast
  from assms(6) e(2) obtain fs u where f: "entry = Obj fs" "map_of fs ''dist.tarball'' = Some u"
    by blast
  have "tarball_handler (Obj kvs) = Inr u"
    using e(1) f assms(5) by (simp add: tarball_handler_def getLastKey_Obj [OF assms(4)])
  then have "fst (tarball pkg version w) = Resolved u"
    using execViewCommand_resolved [OF assms(1-3)]
    by (simp add: tarball_def then_promise_Resolved)
  then show ?thesis
    using Max_key_bound [OF assms(4)] e(1) f by blast
qed

theorem tarball_unwraps_last_key_witness:
  "fst (tarball ''bower'' ''1.7.7'' (npm_replying (Obj
      [(''1.7.7'', Obj [(''dist.tarball'',
           Str ''http://registry.npmjs.org/bower/-/bower-1.7.7.tgz'')])])))
     = Resolved (Str ''http://registry.npmjs.org/bower/-/bower-1.7.7.tgz'')"
proof -
  let ?kvs = "[(''1.7.7'', Obj [(''dist.tarball'',
           Str ''http://registry.npmjs.org/bower/-/bower-1.7.7.tgz'')])]"
  let ?w = "npm_replying (Obj ?kvs)"
  have a: "\<not> truthy (fst (load_reply ?w (loads ?w)))"
    by (simp add: npm_replying_def)
  have b: "view_reply ?w (views ?w) [''bower'' @ ''@'' @ ''1.7.7'', ''dist.tarball'']
             = (Null, Obj ?kvs)"
    by (simp add: npm_replying_def)
  have c: "\<not> truthy Null" by simp
  have d: "?kvs \<noteq> []" by simp
  have e: "map_of ?kvs ''dist.tarball'' = None" by simp
  have f: "\<forall>(k, v) \<in> set ?kvs. \<exists>fs u. v = Obj fs \<and> map_of fs ''dist.tarball'' = Some u"
    by simp
  from tarball_unwraps_last_key [OF a b c d e f]
  obtain k fs u where k: "k \<in> fst ` set ?kvs"
    and m: "map_of ?kvs k = Some (Obj fs)" "map_of fs ''dist.tarball'' = Some u"
    and r: "fst (tarball ''bower'' ''1.7.7'' ?w) = Resolved u"
    by blast
  from k have "k = ''1.7.7''" by simp
  with m have "u = Str ''http://registry.npmjs.org/bower/-/bower-1.7.7.tgz''" by auto
  with r show ?thesis by simp
qed

text \<open>
  Claim C3. When the view reply for the package's \<^verbatim>\<open>versions\<close> is already an array,
  \<open>releases\<close> resolves with exactly that array: the same elements in the same order.
\<close>

theorem releases_array_unchanged:
  assumes "\<not> truthy (fst (load_reply w (loads w)))"
    and "view_reply w (views w) [p, ''versions''] = (err, Arr xs)"
    and "\<not> truthy err"
  shows "fst (releases p w) = Resolved (Arr xs)"
  using execViewCommand_resolved [OF assms]
  by (simp add: releases_def then_promise_def releases_handler_def)

theorem releases_array_unchanged_witness:
  "fst (releases ''bower'' (npm_replying (Arr [Str ''1.0.0'', Str ''1.1.0'', Str ''1.7.7''])))
     = Resolved (Arr [Str ''1.0.0'', Str ''1.1.0'', Str ''1.7.7''])"
proof -
  let ?w = "npm_replying (Arr [Str ''1.0.0'', Str ''1.1.0'', Str ''1.7.7''])"
  have a: "\<not> truthy (fst (load_reply ?w (loads ?w)))"
    by (simp add: npm_replying_def)
  have b: "view_reply ?w (views ?w) [''bower'', ''versions'']
             = (Null, Arr [Str ''1.0.0'', Str ''1.1.0'', Str ''1.7.7''])"
    by (simp add: npm_replying_def)
  have c: "\<not> truthy Null" by simp
  show ?thesis by (rule releases_array_unchanged [OF a b c])
qed

text \<open>
  Claim C4, as amended. When the view reply is a mapping with a \<^verbatim>\<open>dist.tarball\<close> entry
  of its own whose value is truthy (any non-empty string is), \<open>tarball\<close> resolves with
  exactly that value, whatever else the mapping holds.
\<close>

theorem tarball_direct_truthy:
  assumes "\<not> truthy (fst (load_reply w (loads w)))"
    and "view_reply w (views w) [pkg @ ''@'' @ version, ''dist.tarball''] = (err, Obj kvs)"
    and "\<not> truthy err"
    and "map_of kvs ''dist.tarball'' = Some t"
    and "truthy t"
  shows "fst (tarball pkg version w) = Resolved t"
proof -
  have "tarball_handler (Obj kvs) = Inr t"
    using assms(4,5) by (simp add: tarball_handler_def)
  then show ?thesis
    using execViewCommand_resolved [OF assms(1-3)]
    by (simp add: tarball_def then_promise_Resolved)
qed

theorem tarball_direct_truthy_witness:
  "fst (tarball ''bower'' ''1.7.7'' (npm_replying (Obj
      [(''dist.tarball'', Str ''http://registry.npmjs.org/bower/-/bower-1.7.7.tgz'')])))
     = Resolved (Str ''http://registry.npmjs.org/bower/-/bower-1.7.7.tgz'')"
proof -
  let ?kvs = "[(''dist.tarball'', Str ''http://registry.npmjs.org/bower/-/bower-1.7.7.tgz'')]"
  let ?w = "npm_replying (Obj ?kvs)"
  have a: "\<not> truthy (fst (load_reply ?w (loads ?w)))"
    by (simp add: npm_replying_def)
  have b: "view_reply ?w (views ?w) [''bower'' @ ''@'' @ ''1.7.7'', ''dist.tarball'']
             = (Null, Obj ?kvs)"
    by (simp add: npm_replying_def)
  have c: "\<not> truthy Null" by simp
  have d: "map_of ?kvs ''dist.tarball''
             = Some (Str ''http://registry.npmjs.org/bower/-/bower-1.7.7.tgz'')"
    by simp
  have e: "truthy (Str ''http://registry.npmjs.org/bower/-/bower-1.7.7.tgz'')" by simp
  show ?thesis by (rule tarball_direct_truthy [OF a b c d e])
qed

text \<open>
  Claim C4 as stated fails: the reply \<^verbatim>\<open>{ "dist.tarball": "" }\<close> contains the key, and
  \<open>tarball\<close> does not resolve with its value, the empty string, but with
  \<^verbatim>\<open>undefined\<close>, which the nested path reads from the empty string.
\<close>

theorem tarball_direct_falsy_counterexample:
  "map_of [(''dist.tarball'', Str [])] ''dist.tarball'' = Some (Str [])
   \<and> fst (tarball ''bower'' ''1.7.7'' (npm_replying (Obj [(''dist.tarball'', Str [])])))
       = Resolved Undefined
   \<and> Resolved Undefined \<noteq> Resolved (Str [])"
  by (simp add: tarball_def execViewCommand_def npm_load_def npm_view_def wrapCallback_def
      npm_replying_def then_promise_def tarball_handler_def getLastKey_def index_of_key_def)

text \<open>
  Claim C5. When the configuration loads, \<open>proxy\<close> resolves with a mapping that has
  exactly the two keys \<^verbatim>\<open>proxy\<close> and \<^verbatim>\<open>https-proxy\<close>, whose values are what the
  configuration gives for these two settings: \<^verbatim>\<open>undefined\<close> for a setting that is not
  configured and the configured value otherwise.
\<close>

theorem proxy_two_keys:
  assumes "load_reply w (loads w) = (err, cfg)"
    and "\<not> truthy err"
  shows "\<exists>m. fst (proxy w) = Resolved m
           \<and> keys m = Inr [''proxy'', ''https-proxy'']
           \<and> get m ''proxy'' = Inr (cfg ''proxy'')
           \<and> get m ''https-proxy'' = Inr (cfg ''https-proxy'')"
  using assms by (simp add: proxy_def npm_load_def)

theorem proxy_two_keys_witness:
  "(\<exists>m. fst (proxy (npm_replying Undefined)) = Resolved m
       \<and> keys m = Inr [''proxy'', ''https-proxy'']
       \<and> get m ''proxy'' = Inr Undefined
       \<and> get m ''https-proxy'' = Inr Undefined)
   \<and> (\<exists>m. fst (proxy (npm_with_proxy ''http://proxy:8080'' ''https://proxy:8080'')) = Resolved m
       \<and> keys m = Inr [''proxy'', ''https-proxy'']
       \<and> get m ''proxy'' = Inr (Str ''http://proxy:8080'')
       \<and> get m ''https-proxy'' = Inr (Str ''https://proxy:8080''))"
proof -
  let ?w = "npm_replying Undefined"
  let ?v = "npm_with_proxy ''http://proxy:8080'' ''https://proxy:8080''"
  let ?cfg = "\<lambda>k. if k = ''proxy'' then Str ''http://proxy:8080''
                  else if k = ''https-proxy'' then Str ''https://proxy:8080''
                  else Undefined"
  have a: "load_reply ?w (loads ?w) = (Null, \<lambda>k. Undefined)"
    by (simp add: npm_replying_def)
  have b: "load_reply ?v (loads ?v) = (Null, ?cfg)"
    by (simp add: npm_with_proxy_def)
  have c: "\<not> truthy Null" by simp
  show ?thesis
    using proxy_two_keys [OF a c] proxy_two_keys [OF b c] by simp
qed

lemma execViewCommand_load_error:
  assumes "truthy (fst (load_reply w (loads w)))"
  shows "execViewCommand args w =
           (Rejected (Err (fst (load_reply w (loads w)))), w\<lparr>loads := Suc (loads w)\<rparr>)"
  using assms
  by (cases "load_reply w (loads w)") (simp add: execViewCommand_def npm_load_def)

lemma execViewCommand_view_error:
  assumes "\<not> truthy (fst (load_reply w (loads w)))"
    and "truthy (fst (view_reply w (views w) args))"
  shows "execViewCommand args w =
           (Rejected (Err (fst (view_reply w (views w) args))),
            w\<lparr>loads := Suc (loads w), views := Suc (views w)\<rparr>)"
  using assms
  by (cases "load_reply w (loads w)"; cases "view_reply w (views w) args")
     (simp add: execViewCommand_def npm_load_def npm_view_def wrapCallback_def)

text \<open>
  Claim C6. When the view command fails, that is, calls back with an error, \<open>releases\<close>
  and \<open>tarball\<close> reject with that very error: it is not swallowed and not turned into a
  resolved value, and the command is not tried again (npm has been loaded once and the
  view command called once). When loading the configuration fails, they reject with the
  load error, and the view command is not called at all.
\<close>

theorem npm_errors_propagate:
  "(truthy (fst (load_reply w (loads w))) \<longrightarrow>
      releases pkg w =
        (Rejected (Err (fst (load_reply w (loads w)))), w\<lparr>loads := Suc (loads w)\<rparr>)
      \<and> tarball pkg version w =
        (Rejected (Err (fst (load_reply w (loads w)))), w\<lparr>loads := Suc (loads w)\<rparr>))
   \<and> (\<not> truthy (fst (load_reply w (loads w))) \<longrightarrow>
        (truthy (fst (view_reply w (views w) [pkg, ''versions''])) \<longrightarrow>
           releases pkg w =
             (Rejected (Err (fst (view_reply w (views w) [pkg, ''versions'']))),
              w\<lparr>loads := Suc (loads w), views := Suc (views w)\<rparr>))
        \<and> (truthy (fst (view_reply w (views w) [pkg @ ''@'' @ version, ''dist.tarball''])) \<longrightarrow>
           tarball pkg version w =
             (Rejected (Err (fst (view_reply w (views w)
                                   [pkg @ ''@'' @ version, ''dist.tarball'']))),
              w\<lparr>loads := Suc (loads w), views := Suc (views w)\<rparr>)))"
proof (intro conjI impI)
  assume l: "truthy (fst (load_reply w (loads w)))"
  show "releases pkg w =
          (Rejected (Err (fst (load_reply w (loads w)))), w\<lparr>loads := Suc (loads w)\<rparr>)"
    using execViewCommand_load_error [OF l]
    by (simp add: releases_def then_promise_def)
  show "tarball pkg version w =
          (Rejected (Err (fst (load_reply w (loads w)))), w\<lparr>loads := Suc (loads w)\<rparr>)"
    using execViewCommand_load_error [OF l]
    by (simp add: tarball_def then_promise_def)
next
  assume l: "\<not> truthy (fst (load_reply w (loads w)))"
    and v: "truthy (fst (view_reply w (views w) [pkg, ''versions'']))"
  show "releases pkg w =
          (Rejected (Err (fst (view_reply w (views w) [pkg, ''versions'']))),
           w\<lparr>loads := Suc (loads w), views := Suc (views w)\<rparr>)"
    using execViewCommand_view_error [OF l v]
    by (simp add: releases_def then_promise_def)
next
  assume l: "\<not> truthy (fst (load_reply w (loads w)))"
    and v: "truthy (fst (view_reply w (views w) [pkg @ ''@'' @ version, ''dist.tarball'']))"
  show "tarball pkg version w =
          (Rejected (Err (fst (view_reply w (views w)
                                [pkg @ ''@'' @ version, ''dist.tarball'']))),
           w\<lparr>loads := Suc (loads w), views := Suc (views w)\<rparr>)"
    using execViewCommand_view_error [OF l v]
    by (simp add: tarball_def then_promise_def)
qed

theorem npm_errors_propagate_witness:
  "truthy (Str ''E404'')
   \<and> fst (releases ''nope'' (npm_view_failing (Str ''E404''))) = Rejected (Err (Str ''E404''))
   \<and> loads (snd (releases ''nope'' (npm_view_failing (Str ''E404'')))) = 1
   \<and> views (snd (releases ''nope'' (npm_view_failing (Str ''E404'')))) = 1
   \<and> fst (tarball ''nope'' ''1.0.0'' (npm_view_failing (Str ''E404'')))
       = Rejected (Err (Str ''E404''))
   \<and> views (snd (tarball ''nope'' ''1.0.0'' (npm_view_failing (Str ''E404'')))) = 1
   \<and> fst (releases ''bower'' (npm_load_failing (Str ''EACCES''))) = Rejected (Err (Str ''EACCES''))
   \<and> views (snd (releases ''bower'' (npm_load_failing (Str ''EACCES'')))) = 0
   \<and> fst (tarball ''bower'' ''1.7.7'' (npm_load_failing (Str ''EACCES'')))
       = Rejected (Err (Str ''EACCES''))
   \<and> views (snd (tarball ''bower'' ''1.7.7'' (npm_load_failing (Str ''EACCES'')))) = 0"
proof -
  let ?v = "npm_view_failing (Str ''E404'')"
  let ?l = "npm_load_failing (Str ''EACCES'')"
  have a: "\<not> truthy (fst (load_reply ?v (loads ?v)))"
    by (simp add: npm_view_failing_def)
  have b: "truthy (fst (view_reply ?v (views ?v) [''nope'', ''versions'']))"
    by (simp add: npm_view_failing_def)
  have c: "truthy (fst (view_reply ?v (views ?v) [''nope'' @ ''@'' @ ''1.0.0'', ''dist.tarball'']))"
    by (simp add: npm_view_failing_def)
  have d: "truthy (fst (load_reply ?l (loads ?l)))"
    by (simp add: npm_load_failing_def)
  have v: "releases ''nope'' ?v =
             (Rejected (Err (fst (view_reply ?v (views ?v) [''nope'', ''versions'']))),
              ?v\<lparr>loads := Suc (loads ?v), views := Suc (views ?v)\<rparr>)"
          "tarball ''nope'' ''1.0.0'' ?v =
             (Rejected (Err (fst (view_reply ?v (views ?v)
                                   [''nope'' @ ''@'' @ ''1.0.0'', ''dist.tarball'']))),
              ?v\<lparr>loads := Suc (loads ?v), views := Suc (views ?v)\<rparr>)"
    using npm_errors_propagate [of ?v "''nope''" "''1.0.0''"] a b c by blast+
  have l: "releases ''bower'' ?l =
             (Rejected (Err (fst (load_reply ?l (loads ?l)))), ?l\<lparr>loads := Suc (loads ?l)\<rparr>)"
          "tarball ''bower'' ''1.7.7'' ?l =
             (Rejected (Err (fst (load_reply ?l (loads ?l)))), ?l\<lparr>loads := Suc (loads ?l)\<rparr>)"
    using npm_errors_propagate [of ?l "''bower''" "''1.7.7''"] d by blast+
  show ?thesis
    unfolding v l by (simp add: npm_view_failing_def npm_load_failing_def)
qed

text \<open>
  Claim C9. The flat branch of \<open>tarball\<close> is chosen by the truthiness of the reply's
  \<^verbatim>\<open>dist.tarball\<close> value, not by the presence of the key. When the reply maps
  \<^verbatim>\<open>dist.tarball\<close> to a falsy value, \<open>tarball\<close> does not take that value: whatever it
  is, the result is that of the nested path, the read of \<^verbatim>\<open>dist.tarball\<close> from the
  entry whose key is the lexicographically last of the reply's keys (a rejection where
  this read throws).
\<close>

theorem tarball_falsy_falls_through:
  assumes "\<not> truthy (fst (load_reply w (loads w)))"
    and "view_reply w (views w) [pkg @ ''@'' @ version, ''dist.tarball''] = (err, Obj kvs)"
    and "\<not> truthy err"
    and "map_of kvs ''dist.tarball'' = Some t"
    and "\<not> truthy t"
  shows "\<exists>k entry. k \<in> fst ` set kvs \<and> (\<forall>k' \<in> fst ` set kvs. k' \<le> k)
           \<and> map_of kvs k = Some entry
           \<and> fst (tarball pkg version w) =
               (case get entry ''dist.tarball'' of
                  Inl r \<Rightarrow> Rejected r
                | Inr x \<Rightarrow> Resolved x)"
proof -
  let ?k = "Max (fst ` set kvs)"
  have ne: "kvs \<noteq> []" using assms(4) by auto
  obtain entry where e: "map_of kvs ?k = Some entry"
    using map_of_Max_key [OF ne] by blast
  have "tarball_handler (Obj kvs) = get entry ''dist.tarball''"
    using e assms(4,5)
    by (simp add: tarball_handler_def getLastKey_Obj [OF ne] split: sum.splits)
  then have "fst (tarball pkg version w) =
               (case get entry ''dist.tarball'' of Inl r \<Rightarrow> Rejected r | Inr x \<Rightarrow> Resolved x)"
    using execViewCommand_resolved [OF assms(1-3)]
    by (simp add: tarball_def then_promise_Resolved)
  then show ?thesis
    using Max_key_bound [OF ne] e by blast
qed

theorem tarball_falsy_falls_through_witness:
  "fst (tarball ''bower'' ''1.7.7'' (npm_replying (Obj
      [(''dist.tarball'', Str []),
       (''v1.7.7'', Obj [(''dist.tarball'', Str ''http://registry.npmjs.org/b.tgz'')])])))
     = Resolved (Str ''http://registry.npmjs.org/b.tgz'')"
proof -
  let ?kvs = "[(''dist.tarball'', Str []),
       (''v1.7.7'', Obj [(''dist.tarball'', Str ''http://registry.npmjs.org/b.tgz'')])]"
  let ?w = "npm_replying (Obj ?kvs)"
  have a: "\<not> truthy (fst (load_reply ?w (loads ?w)))"
    by (simp add: npm_replying_def)
  have b: "view_reply ?w (views ?w) [''bower'' @ ''@'' @ ''1.7.7'', ''dist.tarball'']
             = (Null, Obj ?kvs)"
    by (simp add: npm_replying_def)
  have c: "\<not> truthy Null" by simp
  have d: "map_of ?kvs ''dist.tarball'' = Some (Str [])" by simp
  have e: "\<not> truthy (Str [])" by simp
  from tarball_falsy_falls_through [OF a b c d e]
  obtain k entry where k: "k \<in> fst ` set ?kvs" "\<forall>k' \<in> fst ` set ?kvs. k' \<le> k"
    and m: "map_of ?kvs k = Some entry"
    and r: "fst (tarball ''bower'' ''1.7.7'' ?w) =
              (case get entry ''dist.tarball'' of Inl r \<Rightarrow> Rejected r | Inr x \<Rightarrow> Resolved x)"
    by blast
  from k have "k = ''v1.7.7''" by auto
  with m have "entry = Obj [(''dist.tarball'', Str ''http://registry.npmjs.org/b.tgz'')]"
    by simp
  with r show ?thesis by simp
qed

text \<open>
  Claim C10. For a view reply that is an empty mapping, \<open>getLastKey\<close> returns
  \<^verbatim>\<open>undefined\<close>, the read of that key from the reply gives \<^verbatim>\<open>undefined\<close>, and the read
  of a field from it throws: \<open>releases\<close>, and \<open>tarball\<close> on its nested path, do not
  resolve with a value but reject.
\<close>

theorem empty_mapping_rejects:
  assumes "\<not> truthy (fst (load_reply w (loads w)))"
  shows "getLastKey (Obj []) = Inr None
    \<and> (view_reply w (views w) [pkg, ''versions''] = (err, Obj []) \<and> \<not> truthy err
         \<longrightarrow> fst (releases pkg w) = Rejected TypeError)
    \<and> (view_reply w (views w) [pkg @ ''@'' @ version, ''dist.tarball''] = (err', Obj [])
         \<and> \<not> truthy err'
         \<longrightarrow> fst (tarball pkg version w) = Rejected TypeError)"
proof (intro conjI impI)
  show "getLastKey (Obj []) = Inr None" by (rule getLastKey_Obj_empty)
next
  assume "view_reply w (views w) [pkg, ''versions''] = (err, Obj []) \<and> \<not> truthy err"
  then have "execViewCommand [pkg, ''versions''] w =
          (Resolved (Obj []), w\<lparr>loads := Suc (loads w), views := Suc (views w)\<rparr>)"
    using execViewCommand_resolved [OF assms] by blast
  then show "fst (releases pkg w) = Rejected TypeError"
    by (simp add: releases_def then_promise_Resolved releases_handler_def
        getLastKey_Obj_empty)
next
  assume "view_reply w (views w) [pkg @ ''@'' @ version, ''dist.tarball''] = (err', Obj [])
            \<and> \<not> truthy err'"
  then have "execViewCommand [pkg @ ''@'' @ version, ''dist.tarball''] w =
          (Resolved (Obj []), w\<lparr>loads := Suc (loads w), views := Suc (views w)\<rparr>)"
    using execViewCommand_resolved [OF assms] by blast
  then show "fst (tarball pkg version w) = Rejected TypeError"
    by (simp add: tarball_def then_promise_Resolved tarball_handler_def
        getLastKey_Obj_empty)
qed

theorem empty_mapping_rejects_witness:
  "getLastKey (Obj []) = Inr None
   \<and> fst (releases ''bower'' (npm_replying (Obj []))) = Rejected TypeError
   \<and> fst (tarball ''bower'' ''1.7.7'' (npm_replying (Obj []))) = Rejected TypeError"
proof -
  let ?w = "npm_replying (Obj [])"
  have a: "\<not> truthy (fst (load_reply ?w (loads ?w)))"
    by (simp add: npm_replying_def)
  have b: "view_reply ?w (views ?w) [''bower'', ''versions''] = (Null, Obj []) \<and> \<not> truthy Null"
    by (simp add: npm_replying_def)
  have c: "view_reply ?w (views ?w) [''bower'' @ ''@'' @ ''1.7.7'', ''dist.tarball'']
             = (Null, Obj []) \<and> \<not> truthy Null"
    by (simp add: npm_replying_def)
  show ?thesis
    using empty_mapping_rejects [OF a, of "''bower''" Null "''1.7.7''" Null] b c by simp
qed








text \<open>
  Claim C8. When the request fails at the network level, or the reply has a non-success
  status, or the file cannot be written because the destination directory is missing or
  not writable, \<open>fetch\<close> fails with DownloadError and resolves with nothing; it has sent
  one request, with no retry, and has written no file.
\<close>

theorem fetch_rejects_with_DownloadError:
  "(http_reply_of h (requests h) url = NetworkFailure
      \<or> (\<exists>status body. http_reply_of h (requests h) url = Response status body
            \<and> \<not> success_status status)
      \<or> \<not> writable_dir h destinationDir)
   \<longrightarrow> fetch url destinationDir h = (Inl DownloadError, h\<lparr>requests := Suc (requests h)\<rparr>)"
  by (auto simp: fetch_def Let_def split: http_reply.splits)

theorem fetch_rejects_with_DownloadError_witness:
  "fst (fetch ''http://registry.npmjs.org/x.tgz'' ''/tmp/dl''
          (host_replying NetworkFailure ''/tmp/dl'')) = Inl DownloadError
   \<and> fst (fetch ''http://registry.npmjs.org/x.tgz'' ''/tmp/dl''
          (host_replying (Response 404 ''Not found'') ''/tmp/dl'')) = Inl DownloadError
   \<and> fst (fetch ''http://registry.npmjs.org/x.tgz'' ''/missing''
          (host_replying (Response 200 ''tgz'') ''/tmp/dl'')) = Inl DownloadError
   \<and> requests (snd (fetch ''http://registry.npmjs.org/x.tgz'' ''/tmp/dl''
          (host_replying (Response 404 ''Not found'') ''/tmp/dl''))) = 1"
proof -
  let ?url = "''http://registry.npmjs.org/x.tgz''"
  let ?n = "host_replying NetworkFailure ''/tmp/dl''"
  let ?s = "host_replying (Response 404 ''Not found'') ''/tmp/dl''"
  let ?d = "host_replying (Response 200 ''tgz'') ''/tmp/dl''"
  have a: "http_reply_of ?n (requests ?n) ?url = NetworkFailure"
    by (simp add: host_replying_def)
  have b: "\<exists>status body. http_reply_of ?s (requests ?s) ?url = Response status body
             \<and> \<not> success_status status"
    by (simp add: host_replying_def success_status_def)
  have c: "\<not> writable_dir ?d ''/missing''"
    by (simp add: host_replying_def)
  have n: "fetch ?url ''/tmp/dl'' ?n = (Inl DownloadError, ?n\<lparr>requests := Suc (requests ?n)\<rparr>)"
    using fetch_rejects_with_DownloadError [of ?n ?url "''/tmp/dl''"] a by blast
  have s: "fetch ?url ''/tmp/dl'' ?s = (Inl DownloadError, ?s\<lparr>requests := Suc (requests ?s)\<rparr>)"
    using fetch_rejects_with_DownloadError [of ?s ?url "''/tmp/dl''"] b by blast
  have d: "fetch ?url ''/missing'' ?d = (Inl DownloadError, ?d\<lparr>requests := Suc (requests ?d)\<rparr>)"
    using fetch_rejects_with_DownloadError [of ?d ?url "''/missing''"] c by blast
  show ?thesis
    unfolding n s d by (simp add: host_replying_def)
qed

end
